theory Spec2Isabelle
  imports Complex_Main "HOL-Library.Sublist"
begin

section \<open>Strings\<close>

text \<open>
  Python strings are modelled as HOL strings. \<open>str.lower\<close> is modelled on the ASCII
  letters, which is all the keyword vocabulary of the filter is written in. Text beyond
  ASCII is outside the model: Python also lowers the capitals there, two of them (the
  dotted capital I and the Kelvin sign) onto the ASCII letters \<open>i\<close> and \<open>k\<close>.
\<close>

definition lower_char :: "char \<Rightarrow> char" where
  "lower_char c =
     (let n = (of_char c :: nat) in if 65 \<le> n \<and> n \<le> 90 then char_of (n + 32) else c)"

definition lower :: "string \<Rightarrow> string" where
  "lower s = map lower_char s"

text \<open>The substring test \<open>sub in s\<close>.\<close>

fun str_contains :: "string \<Rightarrow> string \<Rightarrow> bool" where
  "str_contains sub [] = (sub = [])"
| "str_contains sub (c # s) = (prefix sub (c # s) \<or> str_contains sub s)"

section \<open>The campaign dataset\<close>

text \<open>
  One row of \<open>data/campaign_data.csv\<close>, with the seven columns the tools read. Floating
  point columns are modelled as reals.
\<close>

record campaign =
  business_unit :: string
  channel :: string
  region :: string
  roi :: real
  clicks :: int
  cost_per_click :: real
  cpm :: real

datatype column = Region | Business_unit | Channel

fun str_column :: "column \<Rightarrow> campaign \<Rightarrow> string" where
  "str_column Region r = region r"
| "str_column Business_unit r = business_unit r"
| "str_column Channel r = channel r"

section \<open>JSON text of a segment\<close>

text \<open>
  The text exchanged between the tools is modelled by what a JSON reader makes of it:
  either it is not JSON at all, or it is an array of records, each an ordered list of
  key and value.
\<close>

datatype cell = JStr string | JInt int | JNum real

type_synonym json_record = "(string \<times> cell) list"

datatype json_text = Malformed | Records "json_record list"

text \<open>
  \<open>frame[[...]].to_json(orient="records")\<close> on the seven selected columns, in the order
  they are selected. Numbers are written as they are: the ten decimal digits at which
  the writer cuts a float are not modelled.
\<close>

definition to_json_record :: "campaign \<Rightarrow> json_record" where
  "to_json_record r =
     [(''business_unit'', JStr (business_unit r)),
      (''channel'', JStr (channel r)),
      (''region'', JStr (region r)),
      (''roi'', JNum (roi r)),
      (''clicks'', JInt (clicks r)),
      (''cost_per_click'', JNum (cost_per_click r)),
      (''cpm'', JNum (cpm r))]"

definition to_json :: "campaign list \<Rightarrow> json_text" where
  "to_json frame = Records (map to_json_record frame)"

section \<open>segment\_insight\<close>

definition keyword_map :: "(column \<times> string list) list" where
  "keyword_map =
     [(Region, [''north america'', ''europe'', ''asia'']),
      (Business_unit, [''gbs'', ''watson'', ''cloud'', ''security'', ''analytics'']),
      (Channel, [''display'', ''paid search'', ''paid social''])]"

text \<open>The inner loop over the keywords of one column.\<close>

fun filter_keywords :: "string \<Rightarrow> column \<Rightarrow> string list \<Rightarrow> campaign list \<Rightarrow> campaign list" where
  "filter_keywords query col [] filtered = filtered"
| "filter_keywords query col (keyword # keywords) filtered =
     filter_keywords query col keywords
       (if str_contains keyword query
        then filter (\<lambda>r. lower (str_column col r) = keyword) filtered
        else filtered)"

text \<open>The outer loop over the items of the keyword map.\<close>

fun filter_columns :: "string \<Rightarrow> (column \<times> string list) list \<Rightarrow> campaign list \<Rightarrow> campaign list" where
  "filter_columns query [] filtered = filtered"
| "filter_columns query ((col, keywords) # items) filtered =
     filter_columns query items (filter_keywords query col keywords filtered)"

text \<open>The working set \<open>filtered\<close> as it stands before the emptiness test.\<close>

definition filtered_rows :: "campaign list \<Rightarrow> string \<Rightarrow> campaign list" where
  "filtered_rows df query0 =
     (let query = lower query0;
          filtered = filter_columns query keyword_map df;
          filtered = (if str_contains ''low roi'' query
                      then filter (\<lambda>r. roi r < 0.2) filtered else filtered);
          filtered = (if str_contains ''high cpc'' query
                      then filter (\<lambda>r. cost_per_click r > 2.0) filtered else filtered)
      in filtered)"

text \<open>
  The tool returns a dictionary with the single key \<open>segment_insight\<close>; the model returns
  the value under that key. The literal \<open>"[]"\<close> is the empty array.
\<close>

definition segment_insight :: "campaign list \<Rightarrow> string \<Rightarrow> json_text" where
  "segment_insight df query =
     (let filtered = filtered_rows df query
      in if filtered = [] then Records [] else to_json filtered)"

section \<open>Numbers and their text\<close>

text \<open>
  \<open>round(x, n)\<close> rounds to the nearest multiple of \<open>10 ^ -n\<close>, ties to the even
  neighbour. The model rounds the real number; the binary representation error of a
  floating point number is not modelled.
\<close>

definition round_half_even :: "real \<Rightarrow> int" where
  "round_half_even x =
     (let f = \<lfloor>x\<rfloor>; d = x - of_int f
      in if d < 1 / 2 then f else if 1 / 2 < d then f + 1 else if even f then f else f + 1)"

definition py_round :: "nat \<Rightarrow> real \<Rightarrow> real" where
  "py_round n x = of_int (round_half_even (x * 10 ^ n)) / 10 ^ n"

definition mean :: "real list \<Rightarrow> real" where
  "mean xs = sum_list xs / real (length xs)"

text \<open>
  A number as a row or a score hands it to an f-string: an integer, a float, or the
  negative zero that rounding leaves of a small negative float. What Python prints for a
  number is not fixed here: the printer is a parameter of the model.
\<close>

datatype pynum = PyInt int | PyFloat real | PyNegZero

type_synonym printer = "pynum \<Rightarrow> string"

text \<open>\<open>round(v, 2)\<close>: an integer is returned as it is, a float keeps its sign.\<close>

fun round2 :: "pynum \<Rightarrow> pynum" where
  "round2 (PyInt i) = PyInt i"
| "round2 (PyFloat x) =
     (let k = round_half_even (x * 100)
      in if k = 0 \<and> x < 0 then PyNegZero else PyFloat (real_of_int k / 100))"
| "round2 PyNegZero = PyNegZero"

fun join :: "string \<Rightarrow> string list \<Rightarrow> string" where
  "join sep [] = []"
| "join sep [x] = x"
| "join sep (x # y # xs) = x @ sep @ join sep (y # xs)"

section \<open>Reading a segment back\<close>

datatype error = ValueError | KeyError

fun str_cell :: "cell option \<Rightarrow> string option" where
  "str_cell (Some (JStr s)) = Some s"
| "str_cell _ = None"

fun num_cell :: "cell option \<Rightarrow> real option" where
  "num_cell (Some (JNum x)) = Some x"
| "num_cell (Some (JInt i)) = Some (real_of_int i)"
| "num_cell _ = None"

fun int_cell :: "cell option \<Rightarrow> int option" where
  "int_cell (Some (JInt i)) = Some i"
| "int_cell _ = None"

text \<open>A record read as a typed row; of a repeated key the last value counts.\<close>

definition read_record :: "json_record \<Rightarrow> campaign option" where
  "read_record j =
     (let m = map_of (rev j) in
      Option.bind (str_cell (m ''business_unit'')) (\<lambda>b.
      Option.bind (str_cell (m ''channel'')) (\<lambda>c.
      Option.bind (str_cell (m ''region'')) (\<lambda>g.
      Option.bind (num_cell (m ''roi'')) (\<lambda>r.
      Option.bind (int_cell (m ''clicks'')) (\<lambda>k.
      Option.bind (num_cell (m ''cost_per_click'')) (\<lambda>p.
      Option.bind (num_cell (m ''cpm'')) (\<lambda>q.
        Some \<lparr>business_unit = b, channel = c, region = g, roi = r, clicks = k,
              cost_per_click = p, cpm = q\<rparr>))))))))"

text \<open>
  \<open>pd.read_json(StringIO(segment_json))\<close>. Text that is not JSON raises \<open>ValueError\<close>.
  An array without records, or of records without keys, is an empty frame. The frames of
  the model are typed: an array whose records do not all carry the seven typed columns
  is outside it, and is rejected here with \<open>KeyError\<close>, the error the source raises when it
  selects a column that no record has. So is, by its type, a frame whose text columns
  hold numerals only, which the reader would turn into numbers.
\<close>

fun read_json :: "json_text \<Rightarrow> error + campaign list" where
  "read_json Malformed = Inl ValueError"
| "read_json (Records js) =
     (if list_all (\<lambda>j. j = []) js then Inr []
      else case those (map read_record js) of
             Some frame \<Rightarrow> Inr frame
           | None \<Rightarrow> Inl KeyError)"

text \<open>
  The reader infers the type of a column from its values: a column of numbers that are
  all whole, and within the 64 bits of an integer, becomes an integer column, whether
  the text wrote them as \<open>3\<close> or as \<open>3.0\<close>. The frame of the model keeps the values; this
  is the type the reader gives a column that is not empty.
\<close>

definition int64_value :: "real \<Rightarrow> bool" where
  "int64_value x \<longleftrightarrow> real_of_int \<lfloor>x\<rfloor> = x \<and> - (2 ^ 63) \<le> x \<and> x < 2 ^ 63"

definition int64_column :: "real list \<Rightarrow> bool" where
  "int64_column xs = list_all int64_value xs"

section \<open>The predictive model\<close>

text \<open>
  The booster loaded from \<open>tools/xgb_model.json\<close> is a parameter: the prediction for one
  feature vector (the prediction of a row depends on that row only), and the gain scores
  in the order \<open>get_score\<close> lists them. Every operation on the booster is logged, so that
  what is called, with what, and in which order is part of the result.
\<close>

record booster =
  predict_row :: "real list \<Rightarrow> real"
  gain_scores :: "(string \<times> real) list"

datatype call = Predict "real list list" | Get_score

definition booster_predict :: "booster \<Rightarrow> real list list \<Rightarrow> real list \<times> call list" where
  "booster_predict b dmatrix = (map (predict_row b) dmatrix, [Predict dmatrix])"

definition booster_get_score :: "booster \<Rightarrow> (string \<times> real) list \<times> call list" where
  "booster_get_score b = (gain_scores b, [Get_score])"

section \<open>Budget extraction\<close>

text \<open>
  The digits are the ASCII digits. The digit class of the pattern and \<open>float\<close> also take
  the decimal digits of other scripts, which are outside the model.
\<close>

definition is_digit :: "char \<Rightarrow> bool" where
  "is_digit c = (let n = (of_char c :: nat) in 48 \<le> n \<and> n \<le> 57)"

definition is_amount_char :: "char \<Rightarrow> bool" where
  "is_amount_char c = (is_digit c \<or> c = CHR '','')"

text \<open>
  The pattern \<open>\$?([\d,]+)\<close> tried at the start of a string; the result is group 1. The
  optional dollar sign and the run are greedy, and giving the dollar sign back never
  helps, since the run cannot start with it.
\<close>

definition match_here :: "string \<Rightarrow> string option" where
  "match_here s =
     (let rest = (case s of [] \<Rightarrow> [] | c # t \<Rightarrow> if c = CHR ''$'' then t else s);
          run = takeWhile is_amount_char rest
      in if run = [] then None else Some run)"

text \<open>\<open>re.search\<close>: the match at the leftmost position that has one.\<close>

fun re_search :: "string \<Rightarrow> string option" where
  "re_search [] = match_here []"
| "re_search (c # s) =
     (case match_here (c # s) of Some g \<Rightarrow> Some g | None \<Rightarrow> re_search s)"

definition digit_value :: "char \<Rightarrow> nat" where
  "digit_value c = of_char c - 48"

text \<open>
  \<open>float(s)\<close> on the strings it is given here, which hold decimal digits only: the
  empty string raises \<open>ValueError\<close>. The value is the number the digits write; that a
  float is infinite from about 309 digits on is not modelled.
\<close>

definition py_float :: "string \<Rightarrow> error + real" where
  "py_float s =
     (if s \<noteq> [] \<and> list_all is_digit s
      then Inr (foldl (\<lambda>x c. 10 * x + real (digit_value c)) 0 s)
      else Inl ValueError)"

section \<open>performance\_analysis\<close>

record roi_summary =
  high_performers :: "string list"
  low_performers :: "string list"
  average_roi :: "real option"
  top_features :: string
  projected_roi :: "real option"

text \<open>
  \<open>row['roi']\<close> of a row of the frame: an integer if the roi column of the frame is an
  integer column, a float otherwise.
\<close>

definition row_roi :: "campaign list \<Rightarrow> campaign \<Rightarrow> pynum" where
  "row_roi frame row =
     (if int64_column (map roi frame) then PyInt \<lfloor>roi row\<rfloor> else PyFloat (roi row))"

text \<open>
  The label of a row of the frame. The arrow is the three bytes of its UTF-8 encoding;
  the number is printed by the printer.
\<close>

definition format_campaign :: "printer \<Rightarrow> campaign list \<Rightarrow> campaign \<Rightarrow> string" where
  "format_campaign str_of frame row =
     business_unit row @ '' | '' @ channel row @ '' | '' @ region row @ '' '' @
     [CHR 0xE2, CHR 0x86, CHR 0x92] @ '' ROI: '' @ str_of (round2 (row_roi frame row))"

definition model_input :: "campaign \<Rightarrow> real list" where
  "model_input r = [real_of_int (clicks r), cost_per_click r, cpm r]"

text \<open>
  The optional projection: the block that starts at \<open>projected_roi = None\<close>. Whatever is
  raised inside the \<open>try\<close> leaves \<open>None\<close>.
\<close>

definition project_roi :: "booster \<Rightarrow> string \<Rightarrow> campaign list \<Rightarrow> real option \<times> call list" where
  "project_roi b query segment_df =
     (case re_search query of
        None \<Rightarrow> (None, [])
      | Some group1 \<Rightarrow>
          (let amount_str = filter (\<lambda>c. c \<noteq> CHR '','') group1
           in case py_float amount_str of
                Inl e \<Rightarrow> (None, [])
              | Inr budget \<Rightarrow>
                  (let avg_cpc = mean (map cost_per_click segment_df);
                       avg_cpm = mean (map cpm segment_df);
                       estimated_clicks = (if avg_cpc > 0 then budget / avg_cpc else 1000);
                       synthetic = [[estimated_clicks, avg_cpc, avg_cpm]];
                       (projected, calls) = booster_predict b synthetic
                   in case projected of
                        [] \<Rightarrow> (None, calls)
                      | p # _ \<Rightarrow> (Some (py_round 4 p), calls))))"

definition predict_and_explain ::
  "printer \<Rightarrow> booster \<Rightarrow> string \<Rightarrow> json_text \<Rightarrow> (error + roi_summary) \<times> call list" where
  "predict_and_explain str_of b query segment_json =
     (case read_json segment_json of
        Inl e \<Rightarrow> (Inl e, [])
      | Inr segment_df \<Rightarrow>
          if segment_df = [] then
            (Inr \<lparr>high_performers = [], low_performers = [], average_roi = None,
                  top_features = [], projected_roi = None\<rparr>, [])
          else
            (let model_input_df = map model_input segment_df;
                 (predictions, calls1) = booster_predict b model_input_df;
                 avg_roi = py_round 4 (mean predictions);
                 high = filter (\<lambda>r. roi r > 2.0) segment_df;
                 low = filter (\<lambda>r. roi r < 1.0) segment_df;
                 high_list = map (format_campaign str_of segment_df) high;
                 low_list = map (format_campaign str_of segment_df) low;
                 (importance, calls2) = booster_get_score b;
                 top = sort_key (\<lambda>(k, v). - v) importance;
                 explanation =
                   join '', '' (map (\<lambda>(k, v). k @ '' ('' @ str_of (round2 (PyFloat v)) @ '')'') top);
                 (projected, calls3) = project_roi b query segment_df
             in (Inr \<lparr>high_performers = high_list, low_performers = low_list,
                      average_roi = Some avg_roi, top_features = explanation,
                      projected_roi = projected\<rparr>,
                 calls1 @ calls2 @ calls3)))"

section \<open>Strategy generation\<close>

text \<open>
  The hosted language model behind \<open>chain.run\<close> is a parameter: it returns a text, or
  raises, which is modelled by the message of the exception.
\<close>

type_synonym chain = "string \<Rightarrow> roi_summary \<Rightarrow> string + string"

definition generate_strategy :: "chain \<Rightarrow> string \<Rightarrow> roi_summary \<Rightarrow> string" where
  "generate_strategy chain_run query performance_analysis =
     (case chain_run query performance_analysis of
        Inr text \<Rightarrow> text
      | Inl e \<Rightarrow> ''Strategy generation error: '' @ e)"

section \<open>The graph\<close>

record env =
  dataset :: "campaign list"
  model :: booster
  llm :: chain
  number_text :: printer

record flow_state =
  st_query :: string
  st_segment_insight :: "json_text option"
  st_performance_analysis :: "roi_summary option"
  st_strategy_generator :: "string option"

text \<open>A node returns a dictionary with one key, which the graph writes into the state.\<close>

datatype update =
    Set_segment_insight json_text
  | Set_performance_analysis roi_summary
  | Set_strategy_generator string

fun apply_update :: "flow_state \<Rightarrow> update \<Rightarrow> flow_state" where
  "apply_update st (Set_segment_insight v) = st\<lparr>st_segment_insight := Some v\<rparr>"
| "apply_update st (Set_performance_analysis v) = st\<lparr>st_performance_analysis := Some v\<rparr>"
| "apply_update st (Set_strategy_generator v) = st\<lparr>st_strategy_generator := Some v\<rparr>"

definition segment_node_func :: "env \<Rightarrow> flow_state \<Rightarrow> error + update" where
  "segment_node_func e state = Inr (Set_segment_insight (segment_insight (dataset e) (st_query state)))"

definition performance_node_func :: "env \<Rightarrow> flow_state \<Rightarrow> error + update" where
  "performance_node_func e state =
     (case st_segment_insight state of
        None \<Rightarrow> Inl KeyError
      | Some segment_json \<Rightarrow>
          (case fst (predict_and_explain (number_text e) (model e) (st_query state)
                       segment_json) of
             Inl err \<Rightarrow> Inl err
           | Inr result \<Rightarrow> Inr (Set_performance_analysis result)))"

definition strategy_node_func :: "env \<Rightarrow> flow_state \<Rightarrow> error + update" where
  "strategy_node_func e state =
     (case st_performance_analysis state of
        None \<Rightarrow> Inl KeyError
      | Some performance_analysis \<Rightarrow>
          Inr (Set_strategy_generator
                 (generate_strategy (llm e) (st_query state) performance_analysis)))"

datatype node = START | Segment_insight | Performance_analysis | Strategy_generator | END

text \<open>\<open>add_node\<close>: the function of each node.\<close>

fun nodes :: "env \<Rightarrow> node \<Rightarrow> (flow_state \<Rightarrow> error + update) option" where
  "nodes e Segment_insight = Some (segment_node_func e)"
| "nodes e Performance_analysis = Some (performance_node_func e)"
| "nodes e Strategy_generator = Some (strategy_node_func e)"
| "nodes e _ = None"

text \<open>
  \<open>set_entry_point\<close>, the two \<open>add_edge\<close> and \<open>set_finish_point\<close>: the entry point is an
  edge from \<open>START\<close>, the finish point an edge to \<open>END\<close>.
\<close>

definition edges :: "(node \<times> node) list" where
  "edges =
     [(START, Segment_insight),
      (Segment_insight, Performance_analysis),
      (Performance_analysis, Strategy_generator),
      (Strategy_generator, END)]"

text \<open>
  One visit of a node: its function, if it has one, runs on the current state and its
  update is written. The second component lists the node if its function was run.
\<close>

definition run_node :: "env \<Rightarrow> node \<Rightarrow> flow_state \<Rightarrow> error + flow_state \<times> node list" where
  "run_node e n st =
     (case nodes e n of
        None \<Rightarrow> Inr (st, [])
      | Some f \<Rightarrow> (case f st of Inl err \<Rightarrow> Inl err | Inr u \<Rightarrow> Inr (apply_update st u, [n])))"

text \<open>
  The compiled graph visits one node after the other along the edges, each on the state
  the previous one left, until a node has no edge to follow. The number of visits is
  bounded by the recursion limit, which \<open>invoke\<close> leaves at the default of the library;
  \<open>None\<close> is the limit reached.
\<close>

fun run_graph :: "nat \<Rightarrow> env \<Rightarrow> node \<Rightarrow> flow_state \<Rightarrow> node list \<Rightarrow> (error + flow_state \<times> node list) option" where
  "run_graph 0 e n st trace = None"
| "run_graph (Suc fuel) e n st trace =
     (case run_node e n st of
        Inl err \<Rightarrow> Some (Inl err)
      | Inr (st', visited) \<Rightarrow>
          (case map_of edges n of
             None \<Rightarrow> Some (Inr (st', trace @ visited))
           | Some n' \<Rightarrow> run_graph fuel e n' st' (trace @ visited)))"

definition recursion_limit :: nat where
  "recursion_limit = 25"

definition graph_app_invoke :: "env \<Rightarrow> string \<Rightarrow> (error + flow_state \<times> node list) option" where
  "graph_app_invoke e query =
     run_graph recursion_limit e START
       \<lparr>st_query = query, st_segment_insight = None, st_performance_analysis = None,
        st_strategy_generator = None\<rparr> []"

section \<open>recommend\<close>

text \<open>White space is that of ASCII; the spaces beyond ASCII are outside the model.\<close>

definition is_space :: "char \<Rightarrow> bool" where
  "is_space c = (let n = (of_char c :: nat) in n = 32 \<or> (9 \<le> n \<and> n \<le> 13) \<or> (28 \<le> n \<and> n \<le> 31))"

definition strip :: "string \<Rightarrow> string" where
  "strip s = rev (dropWhile is_space (rev (dropWhile is_space s)))"

text \<open>The warning sign that opens the message is the six bytes of its UTF-8 encoding.\<close>

definition quota_message :: string where
  "quota_message =
     [CHR 0xE2, CHR 0x9A, CHR 0xA0, CHR 0xEF, CHR 0xB8, CHR 0x8F] @
     '' LLM token quota exhausted for this project. '' @
     ''Returning segment & performance analysis. '' @
     ''Please add quota or switch to a smaller model / lower max_new_tokens to enable strategy generation.''"

definition no_strategy_message :: string where
  "no_strategy_message = ''No strategy generated. Please refine your query.''"

definition quota_indicator :: "string \<Rightarrow> bool" where
  "quota_indicator strategy_text \<longleftrightarrow>
     str_contains ''token_quota_reached'' (lower strategy_text) \<or>
     str_contains ''status code: 403'' strategy_text"

datatype failure = Bad_request | Raised error | Recursion_limit

record response =
  segment :: "campaign list"
  performance :: roi_summary
  strategy :: string

text \<open>
  The handler of \<open>/recommend\<close>, for the default format, where no HTML or Markdown view is
  returned. The columns the source adds to a frame that lacks them are not modelled:
  records that do not carry the seven fields fail validation.
\<close>

definition recommend :: "env \<Rightarrow> string \<Rightarrow> failure + response" where
  "recommend e body_query =
     (let query = strip body_query in
      if query = [] then Inl Bad_request
      else case graph_app_invoke e query of
             None \<Rightarrow> Inl Recursion_limit
           | Some (Inl err) \<Rightarrow> Inl (Raised err)
           | Some (Inr (result, trace)) \<Rightarrow>
               (let seg_json_str = (case st_segment_insight result of
                                      None \<Rightarrow> Records [] | Some v \<Rightarrow> v);
                    seg_list = (case seg_json_str of Malformed \<Rightarrow> [] | Records js \<Rightarrow> js);
                    perf = (case st_performance_analysis result of
                              None \<Rightarrow> \<lparr>high_performers = [], low_performers = [],
                                        average_roi = None, top_features = [],
                                        projected_roi = None\<rparr>
                            | Some v \<Rightarrow> v);
                    strategy_text = (case st_strategy_generator result of
                                       None \<Rightarrow> [] | Some v \<Rightarrow> v);
                    strategy_text = (if quota_indicator strategy_text then quota_message
                                     else if strategy_text = [] then no_strategy_message
                                     else strategy_text)
                in case those (map read_record seg_list) of
                     None \<Rightarrow> Inl (Raised ValueError)
                   | Some records \<Rightarrow>
                       Inr \<lparr>segment = records, performance = perf, strategy = strategy_text\<rparr>))"

section \<open>Properties stated in the words of the specification\<close>

text \<open>A record satisfies every predicate derived from the lower-cased query.\<close>

definition satisfies_query :: "string \<Rightarrow> campaign \<Rightarrow> bool" where
  "satisfies_query q r \<longleftrightarrow>
     (\<forall>(col, keywords) \<in> set keyword_map. \<forall>keyword \<in> set keywords.
        str_contains keyword q \<longrightarrow> lower (str_column col r) = keyword) \<and>
     (str_contains ''low roi'' q \<longrightarrow> roi r < 0.2) \<and>
     (str_contains ''high cpc'' q \<longrightarrow> cost_per_click r > 2.0)"

text \<open>The lower-cased query matches no keyword and no trigger phrase.\<close>

definition no_trigger :: "string \<Rightarrow> bool" where
  "no_trigger q \<longleftrightarrow>
     (\<forall>(col, keywords) \<in> set keyword_map. \<forall>keyword \<in> set keywords.
        \<not> str_contains keyword q) \<and>
     \<not> str_contains ''low roi'' q \<and> \<not> str_contains ''high cpc'' q"

text \<open>
  The query contains a parseable monetary amount: somewhere in it stands a run of digits
  and commas that, the commas removed, parses as a number.
\<close>

definition contains_amount :: "string \<Rightarrow> bool" where
  "contains_amount q \<longleftrightarrow>
     (\<exists>before run after. q = before @ run @ after \<and> run \<noteq> [] \<and>
        list_all is_amount_char run \<and>
        py_float (filter (\<lambda>c. c \<noteq> CHR '','') run) \<noteq> Inl ValueError)"

text \<open>The columns of a serialized record, in the order the tool selects them.\<close>

definition segment_columns :: "string list" where
  "segment_columns =
     [''business_unit'', ''channel'', ''region'', ''roi'', ''clicks'', ''cost_per_click'', ''cpm'']"

section \<open>Example data\<close>

definition ex_r1 :: campaign where
  "ex_r1 = \<lparr>business_unit = ''Watson'', channel = ''Paid Search'', region = ''Europe'',
            roi = 2.5, clicks = 100, cost_per_click = 2.5, cpm = 10\<rparr>"

definition ex_r2 :: campaign where
  "ex_r2 = \<lparr>business_unit = ''Cloud'', channel = ''Display'', region = ''Asia'',
            roi = 0.125, clicks = 50, cost_per_click = 1.5, cpm = 7\<rparr>"

definition example_df :: "campaign list" where
  "example_df = [ex_r1, ex_r2]"

text \<open>
  A printer for the examples: what Python prints for an integer, for the negative zero,
  and for a float of at most two decimals as long as that text has no exponent and at
  most fifteen digits.
\<close>

definition digit_char :: "nat \<Rightarrow> char" where
  "digit_char d = char_of (48 + d)"

fun str_nat :: "nat \<Rightarrow> string" where
  "str_nat n = (if n < 10 then [digit_char n] else str_nat (n div 10) @ [digit_char (n mod 10)])"

declare str_nat.simps [simp del]

definition str_hundredths :: "int \<Rightarrow> string" where
  "str_hundredths k =
     (let a = nat \<bar>k\<bar>; whole = a div 100; frac = a mod 100
      in (if k < 0 then ''-'' else []) @ str_nat whole @ ''.'' @
         (if frac mod 10 = 0 then [digit_char (frac div 10)]
          else [digit_char (frac div 10), digit_char (frac mod 10)]))"

definition example_str :: printer where
  "example_str v =
     (case v of
        PyInt i \<Rightarrow> (if i < 0 then ''-'' else []) @ str_nat (nat \<bar>i\<bar>)
      | PyFloat x \<Rightarrow> str_hundredths (round_half_even (x * 100))
      | PyNegZero \<Rightarrow> ''-0.0'')"

definition example_booster :: booster where
  "example_booster =
     \<lparr>predict_row = (\<lambda>features. sum_list features / 1000),
      gain_scores = [(''cpm'', 1.5), (''clicks'', 12.345), (''cost_per_click'', 1.5)]\<rparr>"

definition example_env :: env where
  "example_env =
     \<lparr>dataset = example_df, model = example_booster,
      llm = (\<lambda>query summary. if query = ''quota'' then Inl ''Error 403: token_quota_reached''
                              else if query = ''silent'' then Inr []
                              else Inr (''Spend on '' @ concat (high_performers summary))),
      number_text = example_str\<rparr>"

section \<open>The segment filter\<close>

text \<open>The substring test is the usual notion: some prefix and suffix surround the pattern.\<close>

lemma str_contains_iff_sublist: "str_contains sub s \<longleftrightarrow> sublist sub s"
  by (induction s) (auto simp: sublist_Cons_right)

text \<open>Both loops narrow the working set to the rows that pass every matched keyword.\<close>

lemma filter_keywords_eq:
  "filter_keywords q col kws xs =
     filter (\<lambda>r. \<forall>kw \<in> set kws. str_contains kw q \<longrightarrow> lower (str_column col r) = kw) xs"
proof (induction kws arbitrary: xs)
  case Nil
  then show ?case by simp
next
  case (Cons kw kws)
  then show ?case by (auto intro: filter_cong)
qed

lemma filter_columns_eq:
  "filter_columns q items xs =
     filter (\<lambda>r. \<forall>(col, kws) \<in> set items. \<forall>kw \<in> set kws.
                  str_contains kw q \<longrightarrow> lower (str_column col r) = kw) xs"
proof (induction items arbitrary: xs)
  case Nil
  then show ?case by simp
next
  case (Cons item items)
  obtain col kws where item: "item = (col, kws)" by (cases item)
  show ?case
    unfolding item by (simp add: Cons.IH filter_keywords_eq)
qed

lemma filtered_rows_eq:
  "filtered_rows df query = filter (satisfies_query (lower query)) df"
  unfolding filtered_rows_def Let_def filter_columns_eq satisfies_query_def
  by (auto intro: filter_cong)

lemma to_json_Nil: "to_json [] = Records []"
  by (simp add: to_json_def)

lemma segment_insight_eq: "segment_insight df query = to_json (filtered_rows df query)"
  by (simp add: segment_insight_def Let_def to_json_Nil)

lemma no_trigger_satisfies: "no_trigger q \<Longrightarrow> satisfies_query q r"
  by (auto simp: no_trigger_def satisfies_query_def)

lemma satisfies_query_keyword:
  "satisfies_query q r \<Longrightarrow> (col, keywords) \<in> set keyword_map \<Longrightarrow> k \<in> set keywords \<Longrightarrow>
   str_contains k q \<Longrightarrow> lower (str_column col r) = k"
  unfolding satisfies_query_def by blast

lemma filter_mem_filter: "filter (\<lambda>r. r \<in> set (filter P xs)) xs = filter P xs"
  by (auto intro: filter_cong)

text \<open>
  C1. For every query, the segment that \<open>segment_insight\<close> returns is the serialization of
  the working set; every record of it is a record of the dataset and satisfies every
  predicate derived from the query: equality, ignoring case, with each keyword that
  occurs in the lower-cased query, on the column of that keyword, \<open>roi < 0.2\<close> if the
  query contains "low roi", \<open>cost_per_click > 2.0\<close> if it contains "high cpc". A query that
  matches no keyword and no trigger phrase returns the whole dataset.
\<close>

theorem segment_insight_sound:
  "segment_insight df query = to_json (filtered_rows df query) \<and>
   set (filtered_rows df query) \<subseteq> set df \<and>
   (\<forall>r \<in> set (filtered_rows df query). satisfies_query (lower query) r) \<and>
   (no_trigger (lower query) \<longrightarrow> segment_insight df query = to_json df)"
proof (intro conjI)
  show "segment_insight df query = to_json (filtered_rows df query)"
    by (rule segment_insight_eq)
  show "set (filtered_rows df query) \<subseteq> set df"
    by (simp add: filtered_rows_eq)
  show "\<forall>r \<in> set (filtered_rows df query). satisfies_query (lower query) r"
    by (simp add: filtered_rows_eq)
  show "no_trigger (lower query) \<longrightarrow> segment_insight df query = to_json df"
    by (simp add: segment_insight_eq filtered_rows_eq no_trigger_satisfies)
qed

theorem segment_insight_sound_witness:
  "ex_r1 \<in> set (filtered_rows example_df ''High CPC in Europe'') \<and>
   satisfies_query (lower ''High CPC in Europe'') ex_r1 \<and>
   no_trigger (lower ''Best campaigns?'') \<and>
   segment_insight example_df ''Best campaigns?'' = to_json example_df"
proof -
  have m: "ex_r1 \<in> set (filtered_rows example_df ''High CPC in Europe'')"
    by code_simp
  have n: "no_trigger (lower ''Best campaigns?'')"
    by code_simp
  note sound = segment_insight_sound [of example_df]
  have s: "satisfies_query (lower ''High CPC in Europe'') ex_r1"
    by (rule sound [THEN conjunct2, THEN conjunct2, THEN conjunct1, THEN bspec, OF m])
  have t: "segment_insight example_df ''Best campaigns?'' = to_json example_df"
    by (rule sound [THEN conjunct2, THEN conjunct2, THEN conjunct2, THEN mp, OF n])
  show ?thesis by (intro conjI m s n t)
qed

text \<open>
  C7. When two keywords of one column both occur in the lower-cased query, the filter
  of each is applied to what the other has left: every row of the working set equals
  both keywords on that column. So the tool returns the empty array whenever no row
  of the dataset equals both, and it returns the empty array whenever the working set
  is empty.
\<close>

theorem same_dimension_keywords_intersect:
  assumes "(col, keywords) \<in> set keyword_map"
    and "k1 \<in> set keywords" and "k2 \<in> set keywords"
    and "str_contains k1 (lower query)" and "str_contains k2 (lower query)"
  shows "(\<forall>r \<in> set (filtered_rows df query).
            lower (str_column col r) = k1 \<and> lower (str_column col r) = k2) \<and>
         ((\<forall>r \<in> set df. \<not> (lower (str_column col r) = k1 \<and> lower (str_column col r) = k2))
            \<longrightarrow> segment_insight df query = Records []) \<and>
         (filtered_rows df query = [] \<longrightarrow> segment_insight df query = Records [])"
proof (intro conjI)
  show both: "\<forall>r \<in> set (filtered_rows df query).
                lower (str_column col r) = k1 \<and> lower (str_column col r) = k2"
    using assms by (auto simp: filtered_rows_eq dest: satisfies_query_keyword)
  show "(\<forall>r \<in> set df. \<not> (lower (str_column col r) = k1 \<and> lower (str_column col r) = k2))
          \<longrightarrow> segment_insight df query = Records []"
  proof
    assume none: "\<forall>r \<in> set df. \<not> (lower (str_column col r) = k1 \<and> lower (str_column col r) = k2)"
    have "filtered_rows df query = []"
    proof (cases "filtered_rows df query")
      case Nil
      then show ?thesis .
    next
      case (Cons r rs)
      then have mem: "r \<in> set (filtered_rows df query)" by simp
      then have "r \<in> set df" by (simp add: filtered_rows_eq)
      with none have "\<not> (lower (str_column col r) = k1 \<and> lower (str_column col r) = k2)" ..
      moreover from both mem
      have "lower (str_column col r) = k1 \<and> lower (str_column col r) = k2" ..
      ultimately show ?thesis by contradiction
    qed
    then show "segment_insight df query = Records []"
      by (simp add: segment_insight_def)
  qed
  show "filtered_rows df query = [] \<longrightarrow> segment_insight df query = Records []"
    by (simp add: segment_insight_def)
qed

theorem same_dimension_keywords_intersect_witness:
  "(Region, [''north america'', ''europe'', ''asia'']) \<in> set keyword_map \<and>
   str_contains ''europe'' (lower ''Europe or Asia'') \<and>
   str_contains ''asia'' (lower ''Europe or Asia'') \<and>
   list_all (\<lambda>r. \<not> (lower (str_column Region r) = ''europe'' \<and>
                      lower (str_column Region r) = ''asia'')) example_df \<and>
   filtered_rows example_df ''Europe or Asia'' = [] \<and>
   segment_insight example_df ''Europe or Asia'' = Records []"
proof -
  have a: "(Region, [''north america'', ''europe'', ''asia'']) \<in> set keyword_map"
    by (simp add: keyword_map_def)
  have b: "''europe'' \<in> set [''north america'', ''europe'', ''asia'']"
    and c: "''asia'' \<in> set [''north america'', ''europe'', ''asia'']"
    by simp_all
  have d: "str_contains ''europe'' (lower ''Europe or Asia'')"
    by code_simp
  have e: "str_contains ''asia'' (lower ''Europe or Asia'')"
    by code_simp
  have f: "list_all (\<lambda>r. \<not> (lower (str_column Region r) = ''europe'' \<and>
                            lower (str_column Region r) = ''asia'')) example_df"
    by code_simp
  have g: "filtered_rows example_df ''Europe or Asia'' = []"
    by code_simp
  note fact = same_dimension_keywords_intersect [OF a b c d e, of example_df]
  have h: "segment_insight example_df ''Europe or Asia'' = Records []"
    by (rule fact [THEN conjunct2, THEN conjunct1, THEN mp, OF f [unfolded list_all_iff]])
  have "segment_insight example_df ''Europe or Asia'' = Records []"
    by (rule fact [THEN conjunct2, THEN conjunct2, THEN mp, OF g])
  show ?thesis by (intro conjI a d e f g h)
qed

text \<open>Two different keywords of one column can never both hold of a row.\<close>

lemma distinct_keywords_empty:
  assumes "(col, keywords) \<in> set keyword_map"
    and "k1 \<in> set keywords" and "k2 \<in> set keywords" and "k1 \<noteq> k2"
    and "str_contains k1 (lower query)" and "str_contains k2 (lower query)"
  shows "segment_insight df query = Records []"
proof -
  have "\<forall>r \<in> set (filtered_rows df query). False"
    using assms by (auto simp: filtered_rows_eq dest: satisfies_query_keyword)
  then have "filtered_rows df query = []"
    by (cases "filtered_rows df query") auto
  then show ?thesis by (simp add: segment_insight_def)
qed

text \<open>
  C10. The records of a returned segment are the serializations of a subsequence of
  the dataset, namely of all the rows of the dataset that are in the segment, in the
  order of the dataset; and every serialized record has exactly the seven keys
  \<open>business_unit\<close>, \<open>channel\<close>, \<open>region\<close>, \<open>roi\<close>, \<open>clicks\<close>, \<open>cost_per_click\<close>, \<open>cpm\<close>.
\<close>

theorem segment_order_and_fields:
  "segment_insight df query = Records js \<Longrightarrow>
   (\<exists>seg. js = map to_json_record seg \<and> subseq seg df \<and>
          seg = filter (\<lambda>r. r \<in> set seg) df) \<and>
   (\<forall>j \<in> set js. map fst j = segment_columns)"
proof
  assume ret: "segment_insight df query = Records js"
  then have js: "js = map to_json_record (filtered_rows df query)"
    by (simp add: segment_insight_eq to_json_def)
  have "subseq (filtered_rows df query) df"
    by (simp add: filtered_rows_eq)
  moreover have "filtered_rows df query = filter (\<lambda>r. r \<in> set (filtered_rows df query)) df"
    unfolding filtered_rows_eq by (rule filter_mem_filter [symmetric])
  ultimately show "\<exists>seg. js = map to_json_record seg \<and> subseq seg df \<and>
                         seg = filter (\<lambda>r. r \<in> set seg) df"
    using js by blast
  show "\<forall>j \<in> set js. map fst j = segment_columns"
    unfolding js by (auto simp: to_json_record_def segment_columns_def)
qed

theorem segment_order_and_fields_witness:
  "segment_insight example_df ''High CPC in Europe'' = Records [to_json_record ex_r1] \<and>
   (\<exists>seg. [to_json_record ex_r1] = map to_json_record seg \<and> subseq seg example_df \<and>
          seg = filter (\<lambda>r. r \<in> set seg) example_df) \<and>
   map fst (to_json_record ex_r1) = segment_columns"
proof -
  have h: "segment_insight example_df ''High CPC in Europe'' = Records [to_json_record ex_r1]"
    by code_simp
  note fact = segment_order_and_fields [OF h]
  have "map fst (to_json_record ex_r1) = segment_columns"
    by (rule fact [THEN conjunct2, THEN bspec]) simp
  with h fact [THEN conjunct1] show ?thesis by (intro conjI)
qed

section \<open>The performance analysis\<close>

text \<open>A segment that the filter has written reads back as it was.\<close>

lemma read_record_to_json_record: "read_record (to_json_record r) = Some r"
  by (simp add: read_record_def to_json_record_def)

lemma those_read_records: "those (map read_record (map to_json_record seg)) = Some seg"
  by (induction seg) (simp_all add: read_record_to_json_record)

lemma to_json_record_not_Nil: "to_json_record r \<noteq> []"
  by (simp add: to_json_record_def)

lemma read_json_to_json: "read_json (to_json seg) = Inr seg"
proof (cases seg)
  case Nil
  then show ?thesis by (simp add: to_json_def)
next
  case (Cons r rs)
  then show ?thesis
    using those_read_records [of seg]
    by (simp add: to_json_def to_json_record_not_Nil del: those.simps)
qed

lemma round_half_even_error: "\<bar>real_of_int (round_half_even y) - y\<bar> \<le> 1 / 2"
proof -
  have "real_of_int \<lfloor>y\<rfloor> \<le> y" and "y < real_of_int \<lfloor>y\<rfloor> + 1"
    by linarith+
  then show ?thesis
    by (auto simp: round_half_even_def Let_def)
qed

lemma py_round_error: "\<bar>py_round n x - x\<bar> \<le> 1 / (2 * 10 ^ n)"
proof -
  have pos: "(0::real) < 10 ^ n" by simp
  have "\<bar>py_round n x - x\<bar> = \<bar>real_of_int (round_half_even (x * 10 ^ n)) - x * 10 ^ n\<bar> / 10 ^ n"
    by (simp add: py_round_def field_simps abs_divide flip: abs_mult)
  also have "\<dots> \<le> (1 / 2) / 10 ^ n"
    by (rule divide_right_mono [OF round_half_even_error]) simp
  finally show ?thesis by simp
qed

lemma py_round_grid: "\<exists>k::int. py_round n x = real_of_int k / 10 ^ n"
  by (auto simp: py_round_def)

lemma predict_and_explain_nonempty:
  assumes "read_json segment_json = Inr seg" and "seg \<noteq> []"
  shows "\<exists>summary.
     predict_and_explain str_of b query segment_json =
       (Inr summary,
        Predict (map model_input seg) # Get_score # snd (project_roi b query seg)) \<and>
     high_performers summary =
       map (format_campaign str_of seg) (filter (\<lambda>r. roi r > 2.0) seg) \<and>
     low_performers summary =
       map (format_campaign str_of seg) (filter (\<lambda>r. roi r < 1.0) seg) \<and>
     average_roi summary =
       Some (py_round 4 (mean (map (\<lambda>r. predict_row b (model_input r)) seg))) \<and>
     top_features summary =
       join '', '' (map (\<lambda>(k, v). k @ '' ('' @ str_of (round2 (PyFloat v)) @ '')'')
                      (sort_key (\<lambda>(k, v). - v) (gain_scores b))) \<and>
     projected_roi summary = fst (project_roi b query seg)"
  using assms
  by (simp add: predict_and_explain_def booster_predict_def booster_get_score_def Let_def
           comp_def split: prod.splits)

text \<open>
  C2. If the segment read from the text is empty, the summary has no performers, no
  average, an empty explanation and no projection, and no operation of the booster is
  called.
\<close>

theorem empty_segment_summary:
  "read_json segment_json = Inr [] \<Longrightarrow>
   predict_and_explain str_of b query segment_json =
     (Inr \<lparr>high_performers = [], low_performers = [], average_roi = None,
           top_features = [], projected_roi = None\<rparr>, [])"
  by (simp add: predict_and_explain_def)

theorem empty_segment_summary_witness:
  "read_json (segment_insight example_df ''Europe or Asia'') = Inr [] \<and>
   predict_and_explain example_str example_booster ''Europe or Asia''
       (segment_insight example_df ''Europe or Asia'') =
     (Inr \<lparr>high_performers = [], low_performers = [], average_roi = None,
           top_features = [], projected_roi = None\<rparr>, [])"
proof -
  have h: "read_json (segment_insight example_df ''Europe or Asia'') = Inr []"
    by code_simp
  from h empty_segment_summary [OF h] show ?thesis by (rule conjI)
qed

text \<open>
  C3. For a segment that is not empty, the first call of the booster is the prediction
  on the feature vectors \<open>[clicks, cost_per_click, cpm]\<close> of the records, in the order of
  the segment, and \<open>average_roi\<close> is the mean of the predictions rounded to four decimal
  places: a multiple of \<open>0.0001\<close> at most \<open>0.00005\<close> away from the mean.
\<close>

theorem average_roi_rounded_mean:
  assumes "read_json segment_json = Inr seg" and "seg \<noteq> []"
  shows "\<exists>summary calls a.
           predict_and_explain str_of b query segment_json =
             (Inr summary,
              Predict (map (\<lambda>r. [real_of_int (clicks r), cost_per_click r, cpm r]) seg) # calls) \<and>
           average_roi summary = Some a \<and>
           a = py_round 4
                 (sum_list (map (\<lambda>r. predict_row b [real_of_int (clicks r), cost_per_click r, cpm r])
                              seg) / real (length seg)) \<and>
           (\<exists>k::int. a = real_of_int k / 10 ^ 4) \<and>
           \<bar>a - sum_list (map (\<lambda>r. predict_row b [real_of_int (clicks r), cost_per_click r, cpm r])
                             seg) / real (length seg)\<bar> \<le> 1 / 20000"
proof -
  let ?m = "sum_list (map (\<lambda>r. predict_row b [real_of_int (clicks r), cost_per_click r, cpm r])
                        seg) / real (length seg)"
  from predict_and_explain_nonempty [OF assms, of str_of b query]
  obtain summary where
    run: "predict_and_explain str_of b query segment_json =
            (Inr summary,
             Predict (map model_input seg) # Get_score # snd (project_roi b query seg))"
    and avg: "average_roi summary =
                Some (py_round 4 (mean (map (\<lambda>r. predict_row b (model_input r)) seg)))"
    by blast
  have inputs: "map model_input seg =
                  map (\<lambda>r. [real_of_int (clicks r), cost_per_click r, cpm r]) seg"
    by (simp add: model_input_def)
  have m: "mean (map (\<lambda>r. predict_row b (model_input r)) seg) = ?m"
    by (simp add: mean_def model_input_def)
  have grid: "\<exists>k::int. py_round 4 ?m = real_of_int k / 10 ^ 4"
    by (rule py_round_grid)
  have err: "\<bar>py_round 4 ?m - ?m\<bar> \<le> 1 / 20000"
    using py_round_error [of 4 ?m] by simp
  from run avg grid err show ?thesis
    unfolding inputs m by blast
qed

theorem average_roi_rounded_mean_witness:
  "read_json (to_json example_df) = Inr example_df \<and> example_df \<noteq> [] \<and>
   (\<exists>summary calls a.
      predict_and_explain example_str example_booster ''Which campaigns work?'' (to_json example_df) =
        (Inr summary,
         Predict (map (\<lambda>r. [real_of_int (clicks r), cost_per_click r, cpm r]) example_df) # calls) \<and>
      average_roi summary = Some a \<and>
      a = py_round 4
            (sum_list (map (\<lambda>r. predict_row example_booster
                                   [real_of_int (clicks r), cost_per_click r, cpm r])
                         example_df) / real (length example_df)) \<and>
      (\<exists>k::int. a = real_of_int k / 10 ^ 4) \<and>
      \<bar>a - sum_list (map (\<lambda>r. predict_row example_booster
                                  [real_of_int (clicks r), cost_per_click r, cpm r])
                        example_df) / real (length example_df)\<bar> \<le> 1 / 20000) \<and>
   map_sum id average_roi
     (fst (predict_and_explain example_str example_booster ''Which campaigns work?'' (to_json example_df))) =
     Inr (Some (171 / 2000))"
proof -
  have h1: "read_json (to_json example_df) = Inr example_df"
    by code_simp
  have h2: "example_df \<noteq> []"
    by (simp add: example_df_def)
  have v: "map_sum id average_roi
             (fst (predict_and_explain example_str example_booster ''Which campaigns work?''
                     (to_json example_df))) = Inr (Some (171 / 2000))"
    by code_simp
  show ?thesis
    by (intro conjI h1 h2 v
          average_roi_rounded_mean [OF h1 h2, of example_str example_booster "''Which campaigns work?''"])
qed

text \<open>Rounding to two decimals, whatever the definition of it: what \<open>round2\<close> returns.\<close>

lemma round2_float:
  "(case round2 (PyFloat x) of
      PyFloat y \<Rightarrow> (\<exists>k::int. y = real_of_int k / 100) \<and> \<bar>y - x\<bar> \<le> 1 / 200
    | PyNegZero \<Rightarrow> - (1 / 200) \<le> x \<and> x < 0
    | PyInt i \<Rightarrow> False)"
proof -
  let ?k = "round_half_even (x * 100)"
  have err: "\<bar>real_of_int ?k - x * 100\<bar> \<le> 1 / 2"
    by (rule round_half_even_error)
  show ?thesis
  proof (cases "?k = 0 \<and> x < 0")
    case True
    with err show ?thesis by (simp add: Let_def)
  next
    case False
    have "\<bar>real_of_int ?k / 100 - x\<bar> = \<bar>real_of_int ?k - x * 100\<bar> / 100"
      by (simp add: field_simps)
    with err have "\<bar>real_of_int ?k / 100 - x\<bar> \<le> 1 / 200" by simp
    with False show ?thesis by (auto simp: Let_def)
  qed
qed

text \<open>
  C4. For a segment that is not empty, \<open>high_performers\<close> are the labels of exactly the
  records with recorded \<open>roi > 2.0\<close> and \<open>low_performers\<close> those of exactly the records with
  recorded \<open>roi < 1.0\<close>, in the order of the segment, whatever the booster predicts; no
  record is in both. A label is the business unit, the channel and the region separated
  by \<open>" | "\<close>, then the arrow, \<open>" ROI: "\<close> and what Python prints for the roi of the row
  rounded to two decimals: for the integer itself if the roi column of the segment is an
  integer column, and else for a float that is a multiple of \<open>0.01\<close> at most \<open>0.005\<close>
  away from the roi, or for the negative zero if the roi is negative and at most \<open>0.005\<close>
  away from zero.
\<close>

theorem performers_by_recorded_roi:
  assumes "read_json segment_json = Inr seg" and "seg \<noteq> []"
  shows "\<exists>summary.
           fst (predict_and_explain str_of b query segment_json) = Inr summary \<and>
           high_performers summary =
             map (format_campaign str_of seg) (filter (\<lambda>r. roi r > 2.0) seg) \<and>
           low_performers summary =
             map (format_campaign str_of seg) (filter (\<lambda>r. roi r < 1.0) seg) \<and>
           set (filter (\<lambda>r. roi r > 2.0) seg) \<inter> set (filter (\<lambda>r. roi r < 1.0) seg) = {} \<and>
           (\<forall>r. format_campaign str_of seg r =
                  business_unit r @ '' | '' @ channel r @ '' | '' @ region r @ '' '' @
                  [CHR 0xE2, CHR 0x86, CHR 0x92] @ '' ROI: '' @
                  str_of (round2 (if int64_column (map roi seg) then PyInt \<lfloor>roi r\<rfloor>
                                  else PyFloat (roi r)))) \<and>
           (\<forall>i. round2 (PyInt i) = PyInt i) \<and>
           (\<forall>x. case round2 (PyFloat x) of
                  PyFloat y \<Rightarrow> (\<exists>k::int. y = real_of_int k / 100) \<and> \<bar>y - x\<bar> \<le> 1 / 200
                | PyNegZero \<Rightarrow> - (1 / 200) \<le> x \<and> x < 0
                | PyInt i \<Rightarrow> False)"
proof -
  from predict_and_explain_nonempty [OF assms, of str_of b query]
  obtain summary where
    run: "fst (predict_and_explain str_of b query segment_json) = Inr summary"
    and high: "high_performers summary =
                 map (format_campaign str_of seg) (filter (\<lambda>r. roi r > 2.0) seg)"
    and low: "low_performers summary =
                map (format_campaign str_of seg) (filter (\<lambda>r. roi r < 1.0) seg)"
    by force
  have disjoint: "set (filter (\<lambda>r. roi r > 2.0) seg) \<inter> set (filter (\<lambda>r. roi r < 1.0) seg) = {}"
    by auto
  have label: "\<forall>r. format_campaign str_of seg r =
                  business_unit r @ '' | '' @ channel r @ '' | '' @ region r @ '' '' @
                  [CHR 0xE2, CHR 0x86, CHR 0x92] @ '' ROI: '' @
                  str_of (round2 (if int64_column (map roi seg) then PyInt \<lfloor>roi r\<rfloor>
                                  else PyFloat (roi r)))"
    by (simp add: format_campaign_def row_roi_def)
  have ints: "\<forall>i. round2 (PyInt i) = PyInt i"
    by simp
  have floats: "\<forall>x. case round2 (PyFloat x) of
                  PyFloat y \<Rightarrow> (\<exists>k::int. y = real_of_int k / 100) \<and> \<bar>y - x\<bar> \<le> 1 / 200
                | PyNegZero \<Rightarrow> - (1 / 200) \<le> x \<and> x < 0
                | PyInt i \<Rightarrow> False"
    by (intro allI round2_float)
  show ?thesis
    by (rule exI [of _ summary]) (intro conjI run high low disjoint label ints floats)
qed

text \<open>
  The witness has a float column, printed \<open>2.5\<close> and \<open>0.12\<close>; the two lemmas after it
  have an integer column, printed \<open>3\<close>, and a small negative roi, printed \<open>-0.0\<close>.
\<close>

theorem performers_by_recorded_roi_witness:
  "read_json (to_json example_df) = Inr example_df \<and> example_df \<noteq> [] \<and>
   (\<exists>summary.
      fst (predict_and_explain example_str example_booster ''Which campaigns work?''
             (to_json example_df)) = Inr summary \<and>
      high_performers summary =
        map (format_campaign example_str example_df) (filter (\<lambda>r. roi r > 2.0) example_df) \<and>
      low_performers summary =
        map (format_campaign example_str example_df) (filter (\<lambda>r. roi r < 1.0) example_df) \<and>
      set (filter (\<lambda>r. roi r > 2.0) example_df) \<inter> set (filter (\<lambda>r. roi r < 1.0) example_df) = {} \<and>
      (\<forall>r. format_campaign example_str example_df r =
             business_unit r @ '' | '' @ channel r @ '' | '' @ region r @ '' '' @
             [CHR 0xE2, CHR 0x86, CHR 0x92] @ '' ROI: '' @
             example_str (round2 (if int64_column (map roi example_df) then PyInt \<lfloor>roi r\<rfloor>
                                  else PyFloat (roi r)))) \<and>
      (\<forall>i. round2 (PyInt i) = PyInt i) \<and>
      (\<forall>x. case round2 (PyFloat x) of
             PyFloat y \<Rightarrow> (\<exists>k::int. y = real_of_int k / 100) \<and> \<bar>y - x\<bar> \<le> 1 / 200
           | PyNegZero \<Rightarrow> - (1 / 200) \<le> x \<and> x < 0
           | PyInt i \<Rightarrow> False)) \<and>
   map (format_campaign example_str example_df) (filter (\<lambda>r. roi r > 2.0) example_df) =
     [''Watson | Paid Search | Europe '' @ [CHR 0xE2, CHR 0x86, CHR 0x92] @ '' ROI: 2.5''] \<and>
   map (format_campaign example_str example_df) (filter (\<lambda>r. roi r < 1.0) example_df) =
     [''Cloud | Display | Asia '' @ [CHR 0xE2, CHR 0x86, CHR 0x92] @ '' ROI: 0.12'']"
proof -
  have h1: "read_json (to_json example_df) = Inr example_df"
    by code_simp
  have h2: "example_df \<noteq> []"
    by (simp add: example_df_def)
  have v1: "map (format_campaign example_str example_df) (filter (\<lambda>r. roi r > 2.0) example_df) =
     [''Watson | Paid Search | Europe '' @ [CHR 0xE2, CHR 0x86, CHR 0x92] @ '' ROI: 2.5'']"
    by code_simp
  have v2: "map (format_campaign example_str example_df) (filter (\<lambda>r. roi r < 1.0) example_df) =
     [''Cloud | Display | Asia '' @ [CHR 0xE2, CHR 0x86, CHR 0x92] @ '' ROI: 0.12'']"
    by code_simp
  show ?thesis
    by (intro conjI h1 h2 v1 v2
          performers_by_recorded_roi [OF h1 h2, of example_str example_booster "''Which campaigns work?''"])
qed

text \<open>A roi column of whole numbers is read as integers, and its labels have no point.\<close>

lemma whole_roi_printed_as_integer:
  "map_sum id high_performers
     (fst (predict_and_explain example_str example_booster ''Which campaigns work?''
             (to_json [ex_r1\<lparr>roi := 3\<rparr>, ex_r2\<lparr>roi := 0\<rparr>]))) =
     Inr [''Watson | Paid Search | Europe '' @ [CHR 0xE2, CHR 0x86, CHR 0x92] @ '' ROI: 3'']"
  by code_simp

text \<open>A negative roi that rounds to zero keeps its sign.\<close>

lemma small_negative_roi_printed_as_negative_zero:
  "map_sum id low_performers
     (fst (predict_and_explain example_str example_booster ''Which campaigns work?''
             (to_json [ex_r1, ex_r2\<lparr>roi := - 0.001\<rparr>]))) =
     Inr [''Cloud | Display | Asia '' @ [CHR 0xE2, CHR 0x86, CHR 0x92] @ '' ROI: -0.0'']"
  by code_simp

text \<open>
  C6. The specification has the analysis never raise, a malformed segment being read as
  the empty one. The source reads the text outside any handler: on a text that is not
  JSON the analysis raises \<open>ValueError\<close>, returns no summary and calls no operation of the
  booster.
\<close>

theorem malformed_segment_raises:
  "predict_and_explain str_of b query Malformed = (Inl ValueError, [])"
  by (simp add: predict_and_explain_def)

section \<open>The budget projection\<close>

lemma not_amount_char_dollar: "\<not> is_amount_char CHR ''$''"
  by (simp add: is_amount_char_def is_digit_def)

lemma not_digit_comma: "\<not> is_digit CHR '',''"
  by (simp add: is_digit_def)

lemma match_here_Nil: "match_here [] = None"
  by (simp add: match_here_def)

lemma match_here_Cons:
  "match_here (c # s) =
     (if c = CHR ''$''
      then (case s of [] \<Rightarrow> None
            | d # t \<Rightarrow> if is_amount_char d then Some (takeWhile is_amount_char s) else None)
      else if is_amount_char c then Some (takeWhile is_amount_char (c # s)) else None)"
  by (cases s) (simp_all add: match_here_def)

text \<open>The search returns the first run of digits and commas of the query.\<close>

lemma re_search_first_run:
  "re_search q =
     (case dropWhile (\<lambda>c. \<not> is_amount_char c) q of
        [] \<Rightarrow> None
      | rest \<Rightarrow> Some (takeWhile is_amount_char rest))"
proof (induction q)
  case Nil
  then show ?case by (simp add: match_here_Nil)
next
  case (Cons c s)
  show ?case
  proof (cases "c = CHR ''$''")
    case True
    then show ?thesis
      using Cons.IH not_amount_char_dollar
      by (cases s) (simp_all add: match_here_Cons match_here_Nil)
  next
    case False
    then show ?thesis
      using Cons.IH by (simp add: match_here_Cons)
  qed
qed

lemma re_search_SomeD:
  assumes "re_search q = Some run"
  shows "run \<noteq> [] \<and> list_all is_amount_char run \<and> (\<exists>before after. q = before @ run @ after)"
proof -
  let ?rest = "dropWhile (\<lambda>c. \<not> is_amount_char c) q"
  from assms obtain x xs where rest: "?rest = x # xs"
    by (cases ?rest) (simp_all add: re_search_first_run)
  with assms have run: "run = takeWhile is_amount_char ?rest"
    by (simp add: re_search_first_run)
  from rest have "is_amount_char x"
    using hd_dropWhile [of "\<lambda>c. \<not> is_amount_char c" q] by simp
  with rest have nonempty: "run \<noteq> []"
    unfolding run by simp
  have chars: "list_all is_amount_char run"
    unfolding run list_all_iff by (auto dest: set_takeWhileD)
  have "q = takeWhile (\<lambda>c. \<not> is_amount_char c) q @ run @ dropWhile is_amount_char ?rest"
    unfolding run by simp
  then have "\<exists>before after. q = before @ run @ after"
    by (intro exI)
  with nonempty chars show ?thesis by simp
qed

lemma digits_of_run:
  "list_all is_amount_char run \<Longrightarrow> list_all is_digit (filter (\<lambda>c. c \<noteq> CHR '','') run)"
  by (induction run) (auto simp: is_amount_char_def)

lemma strip_commas_Nil_iff:
  "list_all is_amount_char run \<Longrightarrow>
   filter (\<lambda>c. c \<noteq> CHR '','') run = [] \<longleftrightarrow> \<not> list_ex is_digit run"
  by (induction run) (auto simp: is_amount_char_def not_digit_comma)

lemma py_float_run:
  assumes "list_all is_amount_char run"
  shows "py_float (filter (\<lambda>c. c \<noteq> CHR '','') run) = Inl ValueError \<longleftrightarrow> \<not> list_ex is_digit run"
  using digits_of_run [OF assms] strip_commas_Nil_iff [OF assms]
  by (simp add: py_float_def)

text \<open>No match, or a first run of commas only: no projection and no call.\<close>

lemma project_roi_no_match: "re_search query = None \<Longrightarrow> project_roi b query seg = (None, [])"
  by (simp add: project_roi_def)

lemma project_roi_comma_run:
  assumes "re_search query = Some run" and "\<not> list_ex is_digit run"
  shows "project_roi b query seg = (None, [])"
proof -
  from re_search_SomeD [OF assms(1)] have "list_all is_amount_char run" by simp
  from py_float_run [OF this] assms(2)
  have "py_float (filter (\<lambda>c. c \<noteq> CHR '','') run) = Inl ValueError" by simp
  with assms(1) show ?thesis by (simp add: project_roi_def)
qed

text \<open>A first run with a digit: the projection is the prediction on the synthetic campaign.\<close>

lemma project_roi_budget:
  assumes "re_search query = Some run"
    and "py_float (filter (\<lambda>c. c \<noteq> CHR '','') run) = Inr budget"
  shows "project_roi b query seg =
     (let avg_cpc = mean (map cost_per_click seg); avg_cpm = mean (map cpm seg);
          synthetic = [if avg_cpc > 0 then budget / avg_cpc else 1000, avg_cpc, avg_cpm]
      in (Some (py_round 4 (predict_row b synthetic)), [Predict [synthetic]]))"
  using assms by (simp add: project_roi_def booster_predict_def Let_def)

text \<open>A projection is only ever made for a query that contains an amount.\<close>

lemma project_roi_Some_contains_amount:
  assumes "fst (project_roi b query seg) = Some v"
  shows "contains_amount query"
proof (cases "re_search query")
  case None
  with assms show ?thesis by (simp add: project_roi_no_match)
next
  case (Some run)
  note parts = re_search_SomeD [OF Some]
  have "py_float (filter (\<lambda>c. c \<noteq> CHR '','') run) \<noteq> Inl ValueError"
  proof
    assume "py_float (filter (\<lambda>c. c \<noteq> CHR '','') run) = Inl ValueError"
    with Some have "project_roi b query seg = (None, [])" by (simp add: project_roi_def)
    with assms show False by simp
  qed
  with parts show ?thesis unfolding contains_amount_def by blast
qed

lemma projected_roi_absent_without_amount:
  "\<not> contains_amount query \<Longrightarrow> fst (project_roi b query seg) = None"
  using project_roi_Some_contains_amount [of b query seg] by (cases "fst (project_roi b query seg)") auto

text \<open>
  C5. The specification has the projection absent when the query contains no parseable
  amount, and present, as the prediction on the synthetic campaign rounded to four
  decimals, whenever the query contains one; so does the docstring of the function. The
  first half holds (\<open>projected_roi_absent_without_amount\<close>), and so does the value of a
  projection that is made (\<open>project_roi_budget\<close>). But the search stops at the first run
  of digits and commas, and a run of commas only does not parse: in the query below the
  amount stands after a comma, and no projection is made.
\<close>

theorem amount_after_comma_not_projected:
  "contains_amount ''Hello, invest $20,000'' \<and>
   read_json (to_json example_df) = Inr example_df \<and> example_df \<noteq> [] \<and>
   re_search ''Hello, invest $20,000'' = Some '','' \<and>
   map_sum id projected_roi
     (fst (predict_and_explain example_str example_booster ''Hello, invest $20,000'' (to_json example_df))) =
     Inr None"
proof (intro conjI)
  have split: "''Hello, invest $20,000'' = ''Hello, invest $'' @ ''20,000'' @ []"
    by simp
  have nonempty: "''20,000'' \<noteq> []"
    by simp
  have chars: "list_all is_amount_char ''20,000''"
    by code_simp
  have "list_ex is_digit ''20,000''"
    by code_simp
  with py_float_run [OF chars]
  have parses: "py_float (filter (\<lambda>c. c \<noteq> CHR '','') ''20,000'') \<noteq> Inl ValueError"
    by simp
  show "contains_amount ''Hello, invest $20,000''"
    unfolding contains_amount_def
    by (rule exI [of _ "''Hello, invest $''"], rule exI [of _ "''20,000''"],
        rule exI [of _ "[]"]) (intro conjI split nonempty chars parses)
  show "read_json (to_json example_df) = Inr example_df"
    by code_simp
  show "example_df \<noteq> []"
    by (simp add: example_df_def)
  show "re_search ''Hello, invest $20,000'' = Some '',''"
    by code_simp
  show "map_sum id projected_roi
     (fst (predict_and_explain example_str example_booster ''Hello, invest $20,000'' (to_json example_df))) =
     Inr None"
    by code_simp
qed

text \<open>The same query without the comma is projected from the budget 20000.\<close>

lemma amount_without_comma_projected:
  "map_sum id projected_roi
     (fst (predict_and_explain example_str example_booster ''Hello invest $20,000'' (to_json example_df))) =
     Inr (Some (20021 / 2000))"
  by code_simp

section \<open>The pipeline\<close>

text \<open>The analysis returns a summary for every segment that reads as a frame.\<close>

lemma predict_and_explain_returns:
  assumes "read_json segment_json = Inr seg"
  shows "\<exists>perf. fst (predict_and_explain str_of b query segment_json) = Inr perf"
proof (cases "seg = []")
  case True
  with assms show ?thesis by (simp add: predict_and_explain_def)
next
  case False
  from predict_and_explain_nonempty [OF assms False, of str_of b query]
  show ?thesis by force
qed

lemma analysis_of_filtered_segment:
  "\<exists>perf. fst (predict_and_explain str_of b query (segment_insight df query')) = Inr perf"
  by (rule predict_and_explain_returns [where seg = "filtered_rows df query'"])
     (simp add: segment_insight_eq read_json_to_json)

lemma run_node_segment:
  "run_node e Segment_insight st =
     Inr (st\<lparr>st_segment_insight := Some (segment_insight (dataset e) (st_query st))\<rparr>,
          [Segment_insight])"
  by (simp add: run_node_def segment_node_func_def)

lemma run_node_performance:
  assumes "st_segment_insight st = Some seg"
    and "fst (predict_and_explain (number_text e) (model e) (st_query st) seg) = Inr perf"
  shows "run_node e Performance_analysis st =
           Inr (st\<lparr>st_performance_analysis := Some perf\<rparr>, [Performance_analysis])"
  using assms by (simp add: run_node_def performance_node_func_def)

lemma run_node_strategy:
  assumes "st_performance_analysis st = Some perf"
  shows "run_node e Strategy_generator st =
           Inr (st\<lparr>st_strategy_generator := Some (generate_strategy (llm e) (st_query st) perf)\<rparr>,
                [Strategy_generator])"
  using assms by (simp add: run_node_def strategy_node_func_def)

lemma run_node_no_function: "n = START \<or> n = END \<Longrightarrow> run_node e n st = Inr (st, [])"
  by (auto simp: run_node_def)

text \<open>The node of the analysis has no handler either: what the analysis raises, it raises.\<close>

lemma run_node_performance_malformed:
  "st_segment_insight st = Some Malformed \<Longrightarrow> run_node e Performance_analysis st = Inl ValueError"
  by (simp add: run_node_def performance_node_func_def predict_and_explain_def)

text \<open>A node writes its own key and nothing else.\<close>

lemma run_node_frame:
  assumes "run_node e n st = Inr (st', visited)"
  shows "st_query st' = st_query st \<and>
         (n \<noteq> Segment_insight \<longrightarrow> st_segment_insight st' = st_segment_insight st) \<and>
         (n \<noteq> Performance_analysis \<longrightarrow> st_performance_analysis st' = st_performance_analysis st) \<and>
         (n \<noteq> Strategy_generator \<longrightarrow> st_strategy_generator st' = st_strategy_generator st)"
proof (cases n)
  case Segment_insight
  with assms show ?thesis by (auto simp: run_node_segment)
next
  case Performance_analysis
  with assms show ?thesis
    by (auto simp: run_node_def performance_node_func_def split: option.splits sum.splits)
next
  case Strategy_generator
  with assms show ?thesis
    by (auto simp: run_node_def strategy_node_func_def split: option.splits)
next
  case START
  with assms show ?thesis by (simp add: run_node_no_function)
next
  case END
  with assms show ?thesis by (simp add: run_node_no_function)
qed

text \<open>Five visits are enough; the limit leaves twenty-five.\<close>

lemma run_graph_enough_fuel:
  assumes "fst (predict_and_explain (number_text e) (model e) (st_query st) (segment_insight (dataset e) (st_query st))) = Inr perf"
  shows "run_graph (Suc (Suc (Suc (Suc (Suc fuel))))) e START st [] =
     Some (Inr (st\<lparr>st_segment_insight := Some (segment_insight (dataset e) (st_query st)),
                   st_performance_analysis := Some perf,
                   st_strategy_generator := Some (generate_strategy (llm e) (st_query st) perf)\<rparr>,
                [Segment_insight, Performance_analysis, Strategy_generator]))"
  using assms
  by (simp add: run_node_no_function run_node_segment run_node_performance run_node_strategy
        edges_def)

lemma graph_app_invoke_eq:
  assumes "fst (predict_and_explain (number_text e) (model e) query (segment_insight (dataset e) query)) = Inr perf"
  shows "graph_app_invoke e query =
     Some (Inr (\<lparr>st_query = query,
                  st_segment_insight = Some (segment_insight (dataset e) query),
                  st_performance_analysis = Some perf,
                  st_strategy_generator = Some (generate_strategy (llm e) query perf)\<rparr>,
                [Segment_insight, Performance_analysis, Strategy_generator]))"
proof -
  have limit: "recursion_limit = Suc (Suc (Suc (Suc (Suc 20))))"
    by (simp add: recursion_limit_def)
  show ?thesis
    unfolding graph_app_invoke_def limit
    by (subst run_graph_enough_fuel [where perf = perf]) (simp_all add: assms)
qed

text \<open>
  C9. A run of the graph calls the three node functions in the order segment insight,
  performance analysis, strategy generation and then stops. The first runs on the
  initial state, which holds the query only, and writes the segment; the second runs on
  the state the first has returned and writes the summary; the third runs on the state
  the second has returned and writes the strategy text. On any state, a node changes no
  key but its own, and never the query.
\<close>

theorem pipeline_stages_in_order:
  "\<exists>seg perf strat s0 s1 s2 s3.
     seg = segment_insight (dataset e) query \<and>
     fst (predict_and_explain (number_text e) (model e) query seg) = Inr perf \<and>
     strat = generate_strategy (llm e) query perf \<and>
     s0 = \<lparr>st_query = query, st_segment_insight = None, st_performance_analysis = None,
           st_strategy_generator = None\<rparr> \<and>
     s1 = s0\<lparr>st_segment_insight := Some seg\<rparr> \<and>
     s2 = s1\<lparr>st_performance_analysis := Some perf\<rparr> \<and>
     s3 = s2\<lparr>st_strategy_generator := Some strat\<rparr> \<and>
     run_node e Segment_insight s0 = Inr (s1, [Segment_insight]) \<and>
     run_node e Performance_analysis s1 = Inr (s2, [Performance_analysis]) \<and>
     run_node e Strategy_generator s2 = Inr (s3, [Strategy_generator]) \<and>
     graph_app_invoke e query =
       Some (Inr (s3, [Segment_insight, Performance_analysis, Strategy_generator])) \<and>
     (\<forall>n st st' visited. run_node e n st = Inr (st', visited) \<longrightarrow>
        st_query st' = st_query st \<and>
        (n \<noteq> Segment_insight \<longrightarrow> st_segment_insight st' = st_segment_insight st) \<and>
        (n \<noteq> Performance_analysis \<longrightarrow>
           st_performance_analysis st' = st_performance_analysis st) \<and>
        (n \<noteq> Strategy_generator \<longrightarrow> st_strategy_generator st' = st_strategy_generator st))"
proof -
  define seg where "seg = segment_insight (dataset e) query"
  obtain perf where perf: "fst (predict_and_explain (number_text e) (model e) query seg) = Inr perf"
    unfolding seg_def using analysis_of_filtered_segment by blast
  define strat where "strat = generate_strategy (llm e) query perf"
  define s0 where "s0 = \<lparr>st_query = query, st_segment_insight = None,
                         st_performance_analysis = None, st_strategy_generator = None\<rparr>"
  define s1 where "s1 = s0\<lparr>st_segment_insight := Some seg\<rparr>"
  define s2 where "s2 = s1\<lparr>st_performance_analysis := Some perf\<rparr>"
  define s3 where "s3 = s2\<lparr>st_strategy_generator := Some strat\<rparr>"
  have n1: "run_node e Segment_insight s0 = Inr (s1, [Segment_insight])"
    by (simp add: run_node_segment s0_def s1_def seg_def)
  have n2: "run_node e Performance_analysis s1 = Inr (s2, [Performance_analysis])"
    unfolding s2_def
    by (rule run_node_performance [where seg = seg]) (simp_all add: s1_def s0_def perf)
  have n3: "run_node e Strategy_generator s2 = Inr (s3, [Strategy_generator])"
    using run_node_strategy [of s2 perf e]
    by (simp add: s3_def s2_def s1_def s0_def strat_def)
  have run: "graph_app_invoke e query =
               Some (Inr (s3, [Segment_insight, Performance_analysis, Strategy_generator]))"
    using graph_app_invoke_eq [OF perf [unfolded seg_def]]
    by (simp add: s3_def s2_def s1_def s0_def strat_def seg_def)
  have frame: "\<forall>n st st' visited. run_node e n st = Inr (st', visited) \<longrightarrow>
        st_query st' = st_query st \<and>
        (n \<noteq> Segment_insight \<longrightarrow> st_segment_insight st' = st_segment_insight st) \<and>
        (n \<noteq> Performance_analysis \<longrightarrow>
           st_performance_analysis st' = st_performance_analysis st) \<and>
        (n \<noteq> Strategy_generator \<longrightarrow> st_strategy_generator st' = st_strategy_generator st)"
    by (intro allI impI) (rule run_node_frame)
  show ?thesis
    by (rule exI [of _ seg], rule exI [of _ perf], rule exI [of _ strat], rule exI [of _ s0],
        rule exI [of _ s1], rule exI [of _ s2], rule exI [of _ s3])
       (intro conjI seg_def perf strat_def s0_def s1_def s2_def s3_def n1 n2 n3 run frame)
qed


theorem pipeline_stages_in_order_witness:
  "run_node example_env Segment_insight
     \<lparr>st_query = ''asia $3,000'', st_segment_insight = None, st_performance_analysis = None,
      st_strategy_generator = Some ''draft''\<rparr> =
     Inr (\<lparr>st_query = ''asia $3,000'',
            st_segment_insight = Some (segment_insight example_df ''asia $3,000''),
            st_performance_analysis = None, st_strategy_generator = Some ''draft''\<rparr>,
          [Segment_insight]) \<and>
   st_strategy_generator
     \<lparr>st_query = ''asia $3,000'',
      st_segment_insight = Some (segment_insight example_df ''asia $3,000''),
      st_performance_analysis = None, st_strategy_generator = Some ''draft''\<rparr> =
     Some ''draft'' \<and>
   map_option (map_sum id snd) (graph_app_invoke example_env ''asia $3,000'') =
     Some (Inr [Segment_insight, Performance_analysis, Strategy_generator])"
proof -
  let ?st = "\<lparr>st_query = ''asia $3,000'', st_segment_insight = None,
              st_performance_analysis = None, st_strategy_generator = Some ''draft''\<rparr>"
  let ?st' = "\<lparr>st_query = ''asia $3,000'',
               st_segment_insight = Some (segment_insight example_df ''asia $3,000''),
               st_performance_analysis = None, st_strategy_generator = Some ''draft''\<rparr>"
  have h: "run_node example_env Segment_insight ?st = Inr (?st', [Segment_insight])"
    by (simp add: run_node_segment example_env_def)
  from pipeline_stages_in_order [of example_env "''asia $3,000''"]
  obtain s3 where
    run: "graph_app_invoke example_env ''asia $3,000'' =
            Some (Inr (s3, [Segment_insight, Performance_analysis, Strategy_generator]))"
    and frame: "\<forall>n st st' visited. run_node example_env n st = Inr (st', visited) \<longrightarrow>
        st_query st' = st_query st \<and>
        (n \<noteq> Segment_insight \<longrightarrow> st_segment_insight st' = st_segment_insight st) \<and>
        (n \<noteq> Performance_analysis \<longrightarrow>
           st_performance_analysis st' = st_performance_analysis st) \<and>
        (n \<noteq> Strategy_generator \<longrightarrow> st_strategy_generator st' = st_strategy_generator st)"
    by (elim exE conjE)
  from frame [rule_format, OF h] have "st_strategy_generator ?st' = st_strategy_generator ?st"
    by simp
  then have kept: "st_strategy_generator ?st' = Some ''draft''"
    by simp
  from run have trace: "map_option (map_sum id snd) (graph_app_invoke example_env ''asia $3,000'') =
     Some (Inr [Segment_insight, Performance_analysis, Strategy_generator])"
    by simp
  show ?thesis by (intro conjI h kept trace)
qed

section \<open>The response\<close>

lemma not_quota_indicator_Nil: "\<not> quota_indicator []"
  by (simp add: quota_indicator_def lower_def)

lemma recommend_eq:
  assumes "strip body_query \<noteq> []"
    and "fst (predict_and_explain (number_text e) (model e) (strip body_query)
                (segment_insight (dataset e) (strip body_query))) = Inr perf"
  shows "recommend e body_query =
     Inr \<lparr>segment = filtered_rows (dataset e) (strip body_query),
          performance = perf,
          strategy =
            (let generated = generate_strategy (llm e) (strip body_query) perf
             in if quota_indicator generated then quota_message
                else if generated = [] then no_strategy_message
                else generated)\<rparr>"
  using assms(1)
  by (simp add: recommend_def graph_app_invoke_eq [OF assms(2)] Let_def segment_insight_eq
        to_json_def those_read_records not_quota_indicator_Nil del: those.simps map_map)

text \<open>
  C8. For a query that is not blank, the handler returns a response whose strategy is
  the text of the generator, replaced by the quota message if that text holds
  \<open>token_quota_reached\<close> in any case or \<open>status code: 403\<close>, and otherwise by the "no
  strategy" message if it is empty; the empty text holds no indicator. The segment and
  the summary of the response are those the first two stages computed, whatever the
  generator returns.
\<close>

theorem strategy_text_fallback:
  assumes "strip body_query \<noteq> []"
  shows "\<exists>resp generated.
     recommend e body_query = Inr resp \<and>
     segment resp = filtered_rows (dataset e) (strip body_query) \<and>
     fst (predict_and_explain (number_text e) (model e) (strip body_query)
            (segment_insight (dataset e) (strip body_query))) = Inr (performance resp) \<and>
     generated = generate_strategy (llm e) (strip body_query) (performance resp) \<and>
     strategy resp =
       (if quota_indicator generated then quota_message
        else if generated = [] then no_strategy_message
        else generated) \<and>
     \<not> quota_indicator [] \<and>
     (\<forall>other. map_sum id segment (recommend (e\<lparr>llm := other\<rparr>) body_query) = Inr (segment resp) \<and>
              map_sum id performance (recommend (e\<lparr>llm := other\<rparr>) body_query) =
                Inr (performance resp))"
proof -
  obtain perf where perf:
    "fst (predict_and_explain (number_text e) (model e) (strip body_query)
            (segment_insight (dataset e) (strip body_query))) = Inr perf"
    using analysis_of_filtered_segment by blast
  define generated where "generated = generate_strategy (llm e) (strip body_query) perf"
  define resp where
    "resp = \<lparr>segment = filtered_rows (dataset e) (strip body_query), performance = perf,
             strategy = (if quota_indicator generated then quota_message
                         else if generated = [] then no_strategy_message
                         else generated)\<rparr>"
  have ret: "recommend e body_query = Inr resp"
    by (simp add: recommend_eq [OF assms perf] resp_def generated_def Let_def)
  have seg: "segment resp = filtered_rows (dataset e) (strip body_query)"
    by (simp add: resp_def)
  have ana: "fst (predict_and_explain (number_text e) (model e) (strip body_query)
            (segment_insight (dataset e) (strip body_query))) = Inr (performance resp)"
    by (simp add: resp_def perf)
  have gen: "generated = generate_strategy (llm e) (strip body_query) (performance resp)"
    by (simp add: resp_def generated_def)
  have strat: "strategy resp =
       (if quota_indicator generated then quota_message
        else if generated = [] then no_strategy_message
        else generated)"
    by (simp add: resp_def)
  have other: "\<forall>other. map_sum id segment (recommend (e\<lparr>llm := other\<rparr>) body_query) = Inr (segment resp) \<and>
              map_sum id performance (recommend (e\<lparr>llm := other\<rparr>) body_query) =
                Inr (performance resp)"
  proof
    fix other
    have "fst (predict_and_explain (number_text (e\<lparr>llm := other\<rparr>)) (model (e\<lparr>llm := other\<rparr>)) (strip body_query)
            (segment_insight (dataset (e\<lparr>llm := other\<rparr>)) (strip body_query))) = Inr perf"
      using perf by simp
    from recommend_eq [OF assms this]
    show "map_sum id segment (recommend (e\<lparr>llm := other\<rparr>) body_query) = Inr (segment resp) \<and>
          map_sum id performance (recommend (e\<lparr>llm := other\<rparr>) body_query) =
            Inr (performance resp)"
      by (simp add: resp_def)
  qed
  show ?thesis
    by (rule exI [of _ resp], rule exI [of _ generated])
       (intro conjI ret seg ana gen strat not_quota_indicator_Nil other)
qed

theorem strategy_text_fallback_witness:
  "strip ''quota '' \<noteq> [] \<and>
   (\<exists>resp generated.
     recommend example_env ''quota '' = Inr resp \<and>
     segment resp = filtered_rows (dataset example_env) (strip ''quota '') \<and>
     fst (predict_and_explain (number_text example_env) (model example_env) (strip ''quota '')
            (segment_insight (dataset example_env) (strip ''quota ''))) = Inr (performance resp) \<and>
     generated = generate_strategy (llm example_env) (strip ''quota '') (performance resp) \<and>
     strategy resp =
       (if quota_indicator generated then quota_message
        else if generated = [] then no_strategy_message
        else generated) \<and>
     \<not> quota_indicator [] \<and>
     (\<forall>other. map_sum id segment (recommend (example_env\<lparr>llm := other\<rparr>) ''quota '') =
                Inr (segment resp) \<and>
              map_sum id performance (recommend (example_env\<lparr>llm := other\<rparr>) ''quota '') =
                Inr (performance resp))) \<and>
   map_sum id strategy (recommend example_env ''quota '') = Inr quota_message \<and>
   map_sum id strategy (recommend example_env ''silent'') = Inr no_strategy_message \<and>
   map_sum id strategy (recommend example_env ''Europe'') =
     Inr (''Spend on Watson | Paid Search | Europe '' @ [CHR 0xE2, CHR 0x86, CHR 0x92] @
          '' ROI: 2.5'')"
proof -
  have h: "strip ''quota '' \<noteq> []"
    by code_simp
  have q: "map_sum id strategy (recommend example_env ''quota '') = Inr quota_message"
    by code_simp
  have s: "map_sum id strategy (recommend example_env ''silent'') = Inr no_strategy_message"
    by code_simp
  have t: "map_sum id strategy (recommend example_env ''Europe'') =
     Inr (''Spend on Watson | Paid Search | Europe '' @ [CHR 0xE2, CHR 0x86, CHR 0x92] @
          '' ROI: 2.5'')"
    by code_simp
  show ?thesis
    by (intro conjI h q s t strategy_text_fallback [OF h, of example_env])
qed

end
